theory Spec2Isabelle
  imports Complex_Main
begin

section \<open>Errors and JavaScript numbers\<close>

text \<open>
  Every \<^verbatim>\<open>throw\<close> of \<^verbatim>\<open>codacyInfoProvider.ts\<close> and every rejected promise it awaits is
  a value of \<open>error\<close>; a function that can throw returns \<open>error + 'a\<close> with \<open>Inl\<close> the
  thrown value.
  \<^item> \<open>Error msg\<close> is \<^verbatim>\<open>new Error(msg)\<close>, thrown by the file itself;
  \<^item> \<open>ConfigError key\<close> is what the Backstage \<^verbatim>\<open>Config\<close> accessor throws when the
    required key \<open>key\<close> is missing;
  \<^item> \<open>ConfigTypeError key\<close> is the TypeError that accessor throws when the value at
    \<open>key\<close> is an empty string;
  \<^item> \<open>TypeError p\<close> is the runtime's TypeError on reading property \<open>p\<close> of
    \<^verbatim>\<open>undefined\<close>;
  \<^item> \<open>FetchError msg\<close> is a rejection of \<^verbatim>\<open>fetch\<close> or of \<^verbatim>\<open>response.json()\<close>.
\<close>

datatype error =
  Error string | ConfigError string | ConfigTypeError string | TypeError string |
  FetchError string

text \<open>
  A JavaScript \<^verbatim>\<open>number\<close>: the finite values, the two infinities and NaN. A finite
  value is the rational it denotes (every finite binary64 value is one). The sign of
  zero is not modelled: \<^verbatim>\<open>-0\<close> is falsy and compares like \<^verbatim>\<open>0\<close>, and the only divisor
  in the code is an array length.
\<close>

datatype number = Fin rat | PosInfinity | NegInfinity | NaN

text \<open>Truthiness of a number: \<^verbatim>\<open>0\<close> and \<^verbatim>\<open>NaN\<close> are falsy.\<close>

fun truthy_number :: "number \<Rightarrow> bool" where
  "truthy_number (Fin q) = (q \<noteq> 0)"
| "truthy_number NaN = False"
| "truthy_number PosInfinity = True"
| "truthy_number NegInfinity = True"

text \<open>
  Rounding of an exact result to binary64, to nearest with ties to even. For
  \<open>q \<noteq> 0\<close>, \<open>exponent q\<close> is the \<open>e\<close> with \<open>pow2 e \<le> \<bar>q\<bar> < pow2 (e + 1)\<close>, found from
  the bit lengths of numerator and denominator. The binary64 values around \<open>q\<close> are
  \<open>pow2 (e - 52)\<close> apart, and \<open>pow2 (- 1074)\<close> apart below the normal range. The rounded
  value is \<open>n\<close> of these steps; it is \<open>pow2 1024\<close> or beyond, and the result an infinity,
  when the bit length of \<open>n\<close> and the exponent of the step add to more than 1024.
\<close>

function bitlen :: "int \<Rightarrow> nat" where
  "bitlen n = (if n \<le> 0 then 0 else Suc (bitlen (n div 2)))"
  by pat_completeness auto
termination
  by (relation "measure nat") auto

declare bitlen.simps [simp del]

definition pow2 :: "int \<Rightarrow> rat" where
  "pow2 k = (if 0 \<le> k then 2 ^ nat k else 1 / 2 ^ nat (- k))"

definition exponent :: "rat \<Rightarrow> int" where
  "exponent q =
     (let (a, b) = quotient_of \<bar>q\<bar>;
          k = int (bitlen a) - int (bitlen b)
      in if pow2 k \<le> \<bar>q\<bar> then k else k - 1)"

definition round_half_even :: "rat \<Rightarrow> int" where
  "round_half_even x =
     (let n = \<lfloor>x\<rfloor>; f = x - of_int n
      in if f < 1 / 2 then n
         else if 1 / 2 < f then n + 1
         else if even n then n else n + 1)"

definition round64 :: "rat \<Rightarrow> number" where
  "round64 q =
     (if q = 0 then Fin 0
      else
        let e = max (exponent q) (- 1022);
            ulp = pow2 (e - 52);
            n = round_half_even (q / ulp)
        in if 1024 < int (bitlen \<bar>n\<bar>) + (e - 52)
           then (if 0 < q then PosInfinity else NegInfinity)
           else Fin (of_int n * ulp))"

text \<open>
  The operators \<^verbatim>\<open>+\<close>, \<^verbatim>\<open>/\<close> and \<^verbatim>\<open>>=\<close> on numbers. A sum and a quotient of finite
  values are the exact result, rounded.
\<close>

fun js_add :: "number \<Rightarrow> number \<Rightarrow> number" where
  "js_add (Fin a) (Fin b) = round64 (a + b)"
| "js_add NaN _ = NaN"
| "js_add _ NaN = NaN"
| "js_add PosInfinity NegInfinity = NaN"
| "js_add NegInfinity PosInfinity = NaN"
| "js_add PosInfinity _ = PosInfinity"
| "js_add _ PosInfinity = PosInfinity"
| "js_add NegInfinity _ = NegInfinity"
| "js_add _ NegInfinity = NegInfinity"

fun js_div :: "number \<Rightarrow> number \<Rightarrow> number" where
  "js_div (Fin a) (Fin b) =
     (if b \<noteq> 0 then round64 (a / b)
      else if a = 0 then NaN
      else if 0 < a then PosInfinity
      else NegInfinity)"
| "js_div NaN _ = NaN"
| "js_div _ NaN = NaN"
| "js_div (Fin a) _ = Fin 0"
| "js_div PosInfinity (Fin b) = (if 0 \<le> b then PosInfinity else NegInfinity)"
| "js_div NegInfinity (Fin b) = (if 0 \<le> b then NegInfinity else PosInfinity)"
| "js_div _ _ = NaN"

fun js_ge :: "number \<Rightarrow> number \<Rightarrow> bool" where
  "js_ge (Fin a) (Fin b) = (b \<le> a)"
| "js_ge NaN _ = False"
| "js_ge _ NaN = False"
| "js_ge PosInfinity _ = True"
| "js_ge _ NegInfinity = True"
| "js_ge _ _ = False"

section \<open>Instance registry: \<^verbatim>\<open>CodacyConfig\<close>\<close>

record CodacyInstanceConfig =
  name :: string
  baseUrl :: string
  externalBaseUrl :: "string option"
  apiKey :: string

text \<open>
  The \<^verbatim>\<open>codacy\<close> section of the configuration as \<^verbatim>\<open>config.d.ts\<close> declares it: three
  optional top-level strings and an optional array of named instances whose \<^verbatim>\<open>name\<close>,
  \<^verbatim>\<open>baseUrl\<close> and \<^verbatim>\<open>apiKey\<close> are required. These are the values as written in the
  configuration, before any accessor reads them; a named instance as written has the
  fields of \<open>CodacyInstanceConfig\<close>. The top-level fields carry the prefix \<open>top_\<close> to
  keep them apart from the fields of an instance.
\<close>

record CodacySection =
  top_baseUrl :: "string option"
  top_externalBaseUrl :: "string option"
  top_apiKey :: "string option"
  instances :: "CodacyInstanceConfig list option"

record Config =
  codacy :: "CodacySection option"

definition DEFAULT_CODACY_NAME :: string where
  "DEFAULT_CODACY_NAME = ''default''"

text \<open>Truthiness of an optional string: \<^verbatim>\<open>undefined\<close> and the empty string are falsy.\<close>

fun truthy_string :: "string option \<Rightarrow> bool" where
  "truthy_string None = False"
| "truthy_string (Some s) = (s \<noteq> [])"

definition conflict_message :: string where
  "conflict_message =
     ''Found both a named codacy instance with name '' @ DEFAULT_CODACY_NAME @
     '' and top level baseUrl or apiKey config. Use only one style of config.''"

definition partial_message :: string where
  "partial_message =
     ''Found partial default codacy config. All (or none) of baseUrl and apiKey must be provided.''"

definition no_default_message :: string where
  "no_default_message =
     ''Couldn'' @ [CHR 0x27] @ ''t find a default codacy instance in the config. Either configure an instance with name '' @
     DEFAULT_CODACY_NAME @ '' or add a prefix to your annotation value.''"

definition not_found_message :: "string \<Rightarrow> string" where
  "not_found_message codacyName =
     ''Couldn'' @ [CHR 0x27] @ ''t find a codacy instance in the config with name '' @ codacyName"

text \<open>
  The accessors of the Backstage \<^verbatim>\<open>Config\<close> that \<^verbatim>\<open>fromConfig\<close> calls, on values of the
  declared types (the library is not part of the repository). Both reject an empty
  string with a TypeError; \<^verbatim>\<open>getOptionalString\<close> returns \<^verbatim>\<open>undefined\<close> for a missing
  key. The first argument is the key.
\<close>

definition getOptionalString :: "string \<Rightarrow> string option \<Rightarrow> error + string option" where
  "getOptionalString key v =
     (case v of
        None \<Rightarrow> Inr None
      | Some s \<Rightarrow> if s = [] then Inl (ConfigTypeError key) else Inr (Some s))"

definition getString :: "string \<Rightarrow> string \<Rightarrow> error + string" where
  "getString key s = (if s = [] then Inl (ConfigTypeError key) else Inr s)"

text \<open>
  The callback of \<^verbatim>\<open>map\<close> in \<^verbatim>\<open>fromConfig\<close>: the object literal reads \<^verbatim>\<open>name\<close>,
  \<^verbatim>\<open>baseUrl\<close>, \<^verbatim>\<open>externalBaseUrl\<close> and \<^verbatim>\<open>apiKey\<close> in this order, and the first accessor
  that throws ends the construction.
\<close>

definition read_instance :: "CodacyInstanceConfig \<Rightarrow> error + CodacyInstanceConfig" where
  "read_instance c =
     (case getString ''name'' (name c) of
        Inl e \<Rightarrow> Inl e
      | Inr n \<Rightarrow>
          (case getString ''baseUrl'' (baseUrl c) of
             Inl e \<Rightarrow> Inl e
           | Inr b \<Rightarrow>
               (case getOptionalString ''externalBaseUrl'' (externalBaseUrl c) of
                  Inl e \<Rightarrow> Inl e
                | Inr x \<Rightarrow>
                    (case getString ''apiKey'' (apiKey c) of
                       Inl e \<Rightarrow> Inl e
                     | Inr k \<Rightarrow>
                         Inr \<lparr>name = n, baseUrl = b, externalBaseUrl = x, apiKey = k\<rparr>))))"

fun read_instances :: "CodacyInstanceConfig list \<Rightarrow> error + CodacyInstanceConfig list" where
  "read_instances [] = Inr []"
| "read_instances (c # cs) =
     (case read_instance c of
        Inl e \<Rightarrow> Inl e
      | Inr r \<Rightarrow>
          (case read_instances cs of
             Inl e \<Rightarrow> Inl e
           | Inr rs \<Rightarrow> Inr (r # rs)))"

text \<open>
  \<^verbatim>\<open>CodacyConfig.fromConfig\<close>. The result is the \<^verbatim>\<open>instances\<close> array of the new
  \<^verbatim>\<open>CodacyConfig\<close>, which is all the state the class has. \<open>namedInstanceConfig\<close> is
  the local of that name: the named instances read from the section, none when the
  array is missing. The three top-level strings are read after it, in the order
  \<^verbatim>\<open>baseUrl\<close>, \<^verbatim>\<open>externalBaseUrl\<close>, \<^verbatim>\<open>apiKey\<close>, and before either check.
\<close>

definition namedInstanceConfig :: "CodacySection \<Rightarrow> error + CodacyInstanceConfig list" where
  "namedInstanceConfig codacyConfig =
     (case instances codacyConfig of
        None \<Rightarrow> Inr []
      | Some cs \<Rightarrow> read_instances cs)"

definition fromConfig :: "Config \<Rightarrow> error + CodacyInstanceConfig list" where
  "fromConfig config =
     (case codacy config of
        None \<Rightarrow> Inl (ConfigError ''codacy'')
      | Some codacyConfig \<Rightarrow>
      (case namedInstanceConfig codacyConfig of
        Inl e \<Rightarrow> Inl e
      | Inr named \<Rightarrow>
      (case getOptionalString ''baseUrl'' (top_baseUrl codacyConfig) of
        Inl e \<Rightarrow> Inl e
      | Inr baseUrl' \<Rightarrow>
      (case getOptionalString ''externalBaseUrl'' (top_externalBaseUrl codacyConfig) of
        Inl e \<Rightarrow> Inl e
      | Inr externalBaseUrl' \<Rightarrow>
      (case getOptionalString ''apiKey'' (top_apiKey codacyConfig) of
        Inl e \<Rightarrow> Inl e
      | Inr apiKey' \<Rightarrow>
          let hasNamedDefault = list_ex (\<lambda>x. name x = DEFAULT_CODACY_NAME) named
          in
            if hasNamedDefault \<and>
               (truthy_string baseUrl' \<or> truthy_string externalBaseUrl' \<or> truthy_string apiKey')
            then Inl (Error conflict_message)
            else
              let unnamedNonePresent = (\<not> truthy_string baseUrl' \<and> \<not> truthy_string apiKey');
                  unnamedAllPresent = (truthy_string baseUrl' \<and> truthy_string apiKey')
              in
                if \<not> (unnamedAllPresent \<or> unnamedNonePresent)
                then Inl (Error partial_message)
                else
                  (case (baseUrl', apiKey') of
                     (Some b, Some k) \<Rightarrow>
                       if unnamedAllPresent
                       then Inr (named @
                                 [\<lparr>name = DEFAULT_CODACY_NAME, baseUrl = b,
                                   externalBaseUrl = externalBaseUrl', apiKey = k\<rparr>])
                       else Inr named
                   | _ \<Rightarrow> Inr named))))))"

text \<open>
  \<^verbatim>\<open>CodacyConfig.getInstanceConfig\<close> on the \<^verbatim>\<open>instances\<close> array. The argument is
  \<^verbatim>\<open>options.codacyName\<close>; \<^verbatim>\<open>!codacyName\<close> holds for \<^verbatim>\<open>undefined\<close> and for the empty
  string.
\<close>

definition getInstanceConfig ::
  "CodacyInstanceConfig list \<Rightarrow> string option \<Rightarrow> error + CodacyInstanceConfig" where
  "getInstanceConfig insts codacyName =
     (let useDefault =
            (case find (\<lambda>c. name c = DEFAULT_CODACY_NAME) insts of
               None \<Rightarrow> Inl (Error no_default_message)
             | Some instanceConfig \<Rightarrow> Inr instanceConfig)
      in case codacyName of
           None \<Rightarrow> useDefault
         | Some n \<Rightarrow>
             if n = [] \<or> n = DEFAULT_CODACY_NAME then useDefault
             else (case find (\<lambda>c. name c = n) insts of
                     None \<Rightarrow> Inl (Error (not_found_message n))
                   | Some instanceConfig \<Rightarrow> Inr instanceConfig))"

section \<open>Findings aggregator: \<^verbatim>\<open>DefaultCodacyInfoProvider\<close>\<close>

text \<open>
  The decoded bodies at the types the source casts them to. A property that the
  code tests before use, or that the server may leave out, is an \<open>option\<close>;
  \<open>None\<close> stands for a missing property and for JSON \<^verbatim>\<open>null\<close>, which behave alike
  here (both are falsy, and reading a property of either throws). The four counters
  that \<^verbatim>\<open>ComponentWrapper\<close> declares at its top level are never read and are left out.
\<close>

record AnalysisRecord =
  grade :: "number option"
  coveragePercentageWithDecimals :: "number option"
  issuesPercentage :: "number option"
  complexFilesPercentage :: "number option"
  duplicationPercentage :: "number option"

record ComponentWrapper =
  analysis_data :: "AnalysisRecord list option"

record SecurityData =
  totalOpen :: "number option"
  totalClosed :: "number option"
  onTrack :: "number option"
  closedOnTime :: "number option"

record SecurityComponentWrapper =
  security_data :: "SecurityData option"

text \<open>
  The object \<^verbatim>\<open>metrics_general\<close> that \<^verbatim>\<open>getFindings\<close> returns; its fields carry the
  prefix \<open>m_\<close> to keep them apart from the fields of the bodies.
\<close>

record CodacyFindings =
  m_grade :: number
  m_grade_letter :: string
  m_code_coverage :: number
  m_issuesPercentage :: number
  m_complexFilesPercentage :: number
  m_duplicationPercentage :: number
  m_totalOpen :: "number option"
  m_totalClosed :: "number option"
  m_onTrack :: "number option"
  m_closedOnTime :: "number option"

text \<open>
  \<^verbatim>\<open>calculate_grade\<close>: \<^verbatim>\<open>switch (true)\<close> takes the first case whose comparison is true.
\<close>

definition calculate_grade :: "number \<Rightarrow> string" where
  "calculate_grade g =
     (if js_ge g (Fin 90) then ''A''
      else if js_ge g (Fin 80) then ''B''
      else if js_ge g (Fin 70) then ''C''
      else if js_ge g (Fin 60) then ''D''
      else ''F'')"

text \<open>
  The HTTP client. A request is what \<^verbatim>\<open>callApi\<close> hands to \<^verbatim>\<open>fetch\<close> (the URL ends in
  the blank of the source's template string); a response has
  a status and the outcome of \<^verbatim>\<open>response.json()\<close>, read at the type \<open>'b\<close> that the call
  site casts it to. \<^verbatim>\<open>fetch\<close> itself is a parameter: a function from the request to a
  response or a rejection. The requests issued so far are threaded through as a
  list, so that what is sent, and how often, is part of the result.
\<close>

record request =
  req_url :: string
  req_method :: string
  req_headers :: "(string \<times> string) list"
  req_body :: string

record 'b response =
  status :: nat
  json :: "error + 'b"

definition api_request :: "string \<Rightarrow> string \<Rightarrow> string \<Rightarrow> request" where
  "api_request url path authToken =
     (let url_with_path = url @ ''/'' @ path @ '' ''
      in \<lparr>req_url = url_with_path, req_method = ''POST'',
          req_headers = [(''Content-Type'', ''application/json''),
                         (''Accept'', ''application/json''),
                         (''api-token'', authToken)],
          req_body = ''{}''\<rparr>)"

definition callApi ::
  "(request \<Rightarrow> error + 'b response) \<Rightarrow> string \<Rightarrow> string \<Rightarrow> string \<Rightarrow>
   request list \<Rightarrow> request list \<times> (error + 'b option)" where
  "callApi fetch url path authToken sent =
     (let req = api_request url path authToken
      in case fetch req of
           Inl e \<Rightarrow> (sent @ [req], Inl e)
         | Inr response \<Rightarrow>
             if status response = 200
             then (case json response of
                     Inl e \<Rightarrow> (sent @ [req], Inl e)
                   | Inr b \<Rightarrow> (sent @ [req], Inr (Some b)))
             else (sent @ [req], Inr None))"

text \<open>
  The five running sums of \<^verbatim>\<open>getFindings\<close> and the body of its \<^verbatim>\<open>for\<close> loop: a truthy
  field is added, anything else (a missing field, \<^verbatim>\<open>0\<close>, \<^verbatim>\<open>NaN\<close>) adds 100.
\<close>

record totals =
  grade_total :: number
  code_coverage :: number
  issuesPercentage_total :: number
  complexFilesPercentage_total :: number
  duplicationPercentage_total :: number

definition add_field :: "number \<Rightarrow> number option \<Rightarrow> number" where
  "add_field acc v =
     (case v of
        Some x \<Rightarrow> if truthy_number x then js_add acc x else js_add acc (Fin 100)
      | None \<Rightarrow> js_add acc (Fin 100))"

definition loop_body :: "totals \<Rightarrow> AnalysisRecord \<Rightarrow> totals" where
  "loop_body t r =
     \<lparr>grade_total = add_field (grade_total t) (grade r),
      code_coverage = add_field (code_coverage t) (coveragePercentageWithDecimals r),
      issuesPercentage_total = add_field (issuesPercentage_total t) (issuesPercentage r),
      complexFilesPercentage_total =
        add_field (complexFilesPercentage_total t) (complexFilesPercentage r),
      duplicationPercentage_total =
        add_field (duplicationPercentage_total t) (duplicationPercentage r)\<rparr>"

definition initial_totals :: totals where
  "initial_totals =
     \<lparr>grade_total = Fin 0, code_coverage = Fin 0, issuesPercentage_total = Fin 0,
      complexFilesPercentage_total = Fin 0, duplicationPercentage_total = Fin 0\<rparr>"

text \<open>
  The rest of \<^verbatim>\<open>getFindings\<close> once both bodies are there: the loop, the five averages
  and the object literal. Reading \<^verbatim>\<open>security.data.totalOpen\<close> throws when
  \<^verbatim>\<open>security.data\<close> is missing. The \<^verbatim>\<open>console.log\<close> lines are left out.
\<close>

definition metrics_general ::
  "SecurityComponentWrapper \<Rightarrow> AnalysisRecord list \<Rightarrow> error + CodacyFindings" where
  "metrics_general security data =
     (let t = foldl loop_body initial_totals data;
          len = Fin (of_nat (length data));
          grade_average = js_div (grade_total t) len;
          code_coverage_average = js_div (code_coverage t) len;
          issuesPercentage_average = js_div (issuesPercentage_total t) len;
          complexFilesPercentage_average = js_div (complexFilesPercentage_total t) len;
          duplicationPercentage_average = js_div (duplicationPercentage_total t) len
      in case security_data security of
           None \<Rightarrow> Inl (TypeError ''totalOpen'')
         | Some d \<Rightarrow>
             Inr \<lparr>m_grade = grade_average,
                  m_grade_letter = calculate_grade grade_average,
                  m_code_coverage = code_coverage_average,
                  m_issuesPercentage = issuesPercentage_average,
                  m_complexFilesPercentage = complexFilesPercentage_average,
                  m_duplicationPercentage = duplicationPercentage_average,
                  m_totalOpen = totalOpen d,
                  m_totalClosed = totalClosed d,
                  m_onTrack = onTrack d,
                  m_closedOnTime = closedOnTime d\<rparr>)"

definition security_path :: "string \<Rightarrow> string" where
  "security_path componentKey = ''organizations/gh/'' @ componentKey @ ''/security/dashboard''"

definition analysis_path :: string where
  "analysis_path = ''search/analysis/organizations/gh/MonkeyECX/repositories''"

text \<open>
  \<^verbatim>\<open>getFindings\<close> on the provider's \<^verbatim>\<open>instances\<close>. \<open>fetch_security\<close> and
  \<open>fetch_analysis\<close> are \<^verbatim>\<open>fetch\<close> at the two body types of \<^verbatim>\<open>callApi<T>\<close>. The result
  is the list of requests issued and either the thrown error, \<open>None\<close> for
  \<^verbatim>\<open>undefined\<close> or the findings.
\<close>

definition getFindings ::
  "(request \<Rightarrow> error + SecurityComponentWrapper response) \<Rightarrow>
   (request \<Rightarrow> error + ComponentWrapper response) \<Rightarrow>
   CodacyInstanceConfig list \<Rightarrow> string \<Rightarrow> string option \<Rightarrow>
   request list \<times> (error + CodacyFindings option)" where
  "getFindings fetch_security fetch_analysis insts componentKey instanceName =
     (case getInstanceConfig insts instanceName of
        Inl e \<Rightarrow> ([], Inl e)
      | Inr instanceConfig \<Rightarrow>
          (case callApi fetch_security (baseUrl instanceConfig) (security_path componentKey)
                  (apiKey instanceConfig) [] of
             (sent1, Inl e) \<Rightarrow> (sent1, Inl e)
           | (sent1, Inr None) \<Rightarrow> (sent1, Inr None)
           | (sent1, Inr (Some security)) \<Rightarrow>
               (case callApi fetch_analysis (baseUrl instanceConfig) analysis_path
                       (apiKey instanceConfig) sent1 of
                  (sent2, Inl e) \<Rightarrow> (sent2, Inl e)
                | (sent2, Inr None) \<Rightarrow> (sent2, Inr None)
                | (sent2, Inr (Some analysis)) \<Rightarrow>
                    (case analysis_data analysis of
                       None \<Rightarrow> (sent2, Inr None)
                     | Some data \<Rightarrow>
                         (case metrics_general security data of
                            Inl e \<Rightarrow> (sent2, Inl e)
                          | Inr m \<Rightarrow> (sent2, Inr (Some m)))))))"

text \<open>
  The rule of the specification for one field \<open>f\<close> of the analysis records, in its own
  words: a record contributes the field's value when it is present and truthy and the
  fallback 100 when it is absent or falsy; the contributions are summed from 0 in the
  order of the array, and the sum is divided by the array's length.
\<close>

definition contribution :: "number option \<Rightarrow> number" where
  "contribution v =
     (case v of
        None \<Rightarrow> Fin 100
      | Some x \<Rightarrow> if truthy_number x then x else Fin 100)"

definition field_sum :: "(AnalysisRecord \<Rightarrow> number option) \<Rightarrow> AnalysisRecord list \<Rightarrow> number" where
  "field_sum f data = foldl (\<lambda>acc r. js_add acc (contribution (f r))) (Fin 0) data"

definition field_average ::
  "(AnalysisRecord \<Rightarrow> number option) \<Rightarrow> AnalysisRecord list \<Rightarrow> number" where
  "field_average f data = js_div (field_sum f data) (Fin (of_nat (length data)))"

text \<open>The averaged part of the findings: the five averages and the letter.\<close>

definition averaged ::
  "CodacyFindings \<Rightarrow> number \<times> string \<times> number \<times> number \<times> number \<times> number" where
  "averaged m = (m_grade m, m_grade_letter m, m_code_coverage m, m_issuesPercentage m,
                 m_complexFilesPercentage m, m_duplicationPercentage m)"

section \<open>Concrete inputs\<close>

text \<open>The instance of the repository's tests, and the bodies of the worked example.\<close>

definition example_instance :: CodacyInstanceConfig where
  "example_instance =
     \<lparr>name = ''default'', baseUrl = ''https://codacy.example.com'',
      externalBaseUrl = None, apiKey = ''123456789abcdef0123456789abcedf012''\<rparr>"

definition other_instance :: CodacyInstanceConfig where
  "other_instance =
     \<lparr>name = ''other'', baseUrl = ''https://codacy-other.example.com'',
      externalBaseUrl = None, apiKey = ''abcdef0123456789abcedf0123456789abc''\<rparr>"

definition example_security :: SecurityComponentWrapper where
  "example_security =
     \<lparr>security_data = Some \<lparr>totalOpen = Some (Fin 3), totalClosed = Some (Fin 5),
                             onTrack = Some (Fin 2), closedOnTime = Some (Fin 4)\<rparr>\<rparr>"

definition full_record :: AnalysisRecord where
  "full_record =
     \<lparr>grade = Some (Fin 100), coveragePercentageWithDecimals = Some (Fin 100),
      issuesPercentage = Some (Fin 0), complexFilesPercentage = Some (Fin 0),
      duplicationPercentage = Some (Fin 0)\<rparr>"

definition mixed_record :: AnalysisRecord where
  "mixed_record =
     \<lparr>grade = Some (Fin 80), coveragePercentageWithDecimals = Some (Fin 60),
      issuesPercentage = Some (Fin 20), complexFilesPercentage = Some (Fin 10),
      duplicationPercentage = Some (Fin 0)\<rparr>"

definition absent_record :: AnalysisRecord where
  "absent_record =
     \<lparr>grade = None, coveragePercentageWithDecimals = None, issuesPercentage = None,
      complexFilesPercentage = None, duplicationPercentage = None\<rparr>"

definition other_security :: SecurityComponentWrapper where
  "other_security =
     \<lparr>security_data = Some \<lparr>totalOpen = Some (Fin 7), totalClosed = Some (Fin 0),
                             onTrack = None, closedOnTime = Some (Fin 1)\<rparr>\<rparr>"

text \<open>
  Configurations: the top-level style alone, with a proper and with an empty external
  URL, and others that mix or repeat entries.
\<close>

definition top_level_only :: Config where
  "top_level_only =
     \<lparr>codacy = Some \<lparr>top_baseUrl = Some ''https://codacy.example.com'',
                      top_externalBaseUrl = Some ''https://codacy-public.example.com'',
                      top_apiKey = Some ''123456789abcdef0123456789abcedf012'',
                      instances = None\<rparr>\<rparr>"

definition top_level_empty_external :: Config where
  "top_level_empty_external =
     \<lparr>codacy = Some \<lparr>top_baseUrl = Some ''https://codacy.example.com'',
                      top_externalBaseUrl = Some [],
                      top_apiKey = Some ''123456789abcdef0123456789abcedf012'',
                      instances = None\<rparr>\<rparr>"

definition named_and_top_level :: Config where
  "named_and_top_level =
     \<lparr>codacy = Some \<lparr>top_baseUrl = Some ''https://codacy.example.com'',
                      top_externalBaseUrl = None,
                      top_apiKey = Some ''123456789abcdef0123456789abcedf012'',
                      instances = Some [other_instance]\<rparr>\<rparr>"

definition empty_external_with_named_default :: Config where
  "empty_external_with_named_default =
     \<lparr>codacy = Some \<lparr>top_baseUrl = None, top_externalBaseUrl = Some [],
                      top_apiKey = None, instances = Some [example_instance]\<rparr>\<rparr>"

definition duplicate_names :: Config where
  "duplicate_names =
     \<lparr>codacy = Some \<lparr>top_baseUrl = None, top_externalBaseUrl = None, top_apiKey = None,
                      instances = Some [other_instance,
                        other_instance\<lparr>baseUrl := ''https://codacy-third.example.com''\<rparr>]\<rparr>\<rparr>"

definition partial_with_named_default :: Config where
  "partial_with_named_default =
     \<lparr>codacy = Some \<lparr>top_baseUrl = Some ''https://codacy.example.com'',
                      top_externalBaseUrl = None, top_apiKey = None,
                      instances = Some [example_instance]\<rparr>\<rparr>"

definition external_with_named_default :: Config where
  "external_with_named_default =
     \<lparr>codacy = Some \<lparr>top_baseUrl = None,
                      top_externalBaseUrl = Some ''https://codacy-public.example.com'',
                      top_apiKey = None, instances = Some [example_instance]\<rparr>\<rparr>"

definition base_url_only :: Config where
  "base_url_only =
     \<lparr>codacy = Some \<lparr>top_baseUrl = Some ''https://codacy.example.com'',
                      top_externalBaseUrl = None, top_apiKey = None, instances = None\<rparr>\<rparr>"

definition external_only :: Config where
  "external_only =
     \<lparr>codacy = Some \<lparr>top_baseUrl = None,
                      top_externalBaseUrl = Some ''https://codacy-public.example.com'',
                      top_apiKey = None, instances = Some [other_instance]\<rparr>\<rparr>"

text \<open>A server that answers every request with status \<open>st\<close> and the decoded body \<open>b\<close>.\<close>

definition answers :: "nat \<Rightarrow> 'b \<Rightarrow> request \<Rightarrow> error + 'b response" where
  "answers st b req = Inr \<lparr>status = st, json = Inr b\<rparr>"

section \<open>Facts about the registry\<close>

lemma messages_differ: "conflict_message \<noteq> partial_message"
  by (simp add: conflict_message_def partial_message_def)

lemma getOptionalString_Inr:
  "v \<noteq> Some [] \<Longrightarrow> getOptionalString key v = Inr v"
  by (cases v) (simp_all add: getOptionalString_def)

lemma getOptionalString_empty:
  "getOptionalString key (Some []) = Inl (ConfigTypeError key)"
  by (simp add: getOptionalString_def)

lemma getOptionalString_D:
  "getOptionalString key v = Inr x \<Longrightarrow> x = v \<and> v \<noteq> Some []"
  by (cases v) (auto simp: getOptionalString_def split: if_splits)

lemma truthy_string_present: "v \<noteq> Some [] \<Longrightarrow> truthy_string v = (v \<noteq> None)"
  by (cases v) simp_all

lemma read_instance_D: "read_instance c = Inr r \<Longrightarrow> r = c"
  by (auto simp: read_instance_def getString_def getOptionalString_def
      split: if_splits option.splits)

lemma read_instances_D: "read_instances cs = Inr rs \<Longrightarrow> rs = cs"
  by (induction cs arbitrary: rs) (auto split: sum.splits dest: read_instance_D)

lemma namedInstanceConfig_D:
  "namedInstanceConfig cc = Inr named \<Longrightarrow>
   named = (case instances cc of None \<Rightarrow> [] | Some cs \<Rightarrow> cs)"
  by (auto simp: namedInstanceConfig_def split: option.splits dest: read_instances_D)

lemma list_ex_name: "list_ex (\<lambda>x. name x = d) cs = (d \<in> set (map name cs))"
  by (induction cs) auto

lemma find_name_None: "(find (\<lambda>c. name c = d) cs = None) = (d \<notin> set (map name cs))"
  by (induction cs) auto

text \<open>What \<^verbatim>\<open>fromConfig\<close> does once every accessor has returned.\<close>

lemma fromConfig_read:
  assumes "codacy config = Some cc"
    and "namedInstanceConfig cc = Inr named"
    and "top_baseUrl cc \<noteq> Some []" and "top_externalBaseUrl cc \<noteq> Some []"
    and "top_apiKey cc \<noteq> Some []"
  shows "fromConfig config =
         (if ''default'' \<in> set (map name named) \<and>
             (top_baseUrl cc \<noteq> None \<or> top_externalBaseUrl cc \<noteq> None \<or> top_apiKey cc \<noteq> None)
          then Inl (Error conflict_message)
          else if (top_baseUrl cc = None) \<noteq> (top_apiKey cc = None)
          then Inl (Error partial_message)
          else if top_baseUrl cc = None then Inr named
          else Inr (named @ [\<lparr>name = ''default'', baseUrl = the (top_baseUrl cc),
                               externalBaseUrl = top_externalBaseUrl cc,
                               apiKey = the (top_apiKey cc)\<rparr>]))"
  using assms
  by (auto simp: fromConfig_def getOptionalString_Inr truthy_string_present list_ex_name
      DEFAULT_CODACY_NAME_def Let_def)

lemma fromConfig_Inr_D:
  assumes "fromConfig config = Inr insts" and "codacy config = Some cc"
  shows "\<exists>named. namedInstanceConfig cc = Inr named \<and> top_baseUrl cc \<noteq> Some [] \<and>
           top_externalBaseUrl cc \<noteq> Some [] \<and> top_apiKey cc \<noteq> Some []"
  using assms
  by (auto simp: fromConfig_def split: sum.splits dest: getOptionalString_D)

section \<open>The paths through \<^verbatim>\<open>getFindings\<close>\<close>

lemma getFindings_unresolved:
  "getInstanceConfig insts instanceName = Inl e \<Longrightarrow>
   getFindings fs fa insts componentKey instanceName = ([], Inl e)"
  by (simp add: getFindings_def)

lemma getFindings_first_not_200:
  assumes "getInstanceConfig insts instanceName = Inr inst"
    and "fs (api_request (baseUrl inst) (security_path componentKey) (apiKey inst)) = Inr r1"
    and "status r1 \<noteq> 200"
  shows "getFindings fs fa insts componentKey instanceName =
         ([api_request (baseUrl inst) (security_path componentKey) (apiKey inst)], Inr None)"
  using assms by (simp add: getFindings_def callApi_def)

lemma getFindings_second_not_200:
  assumes "getInstanceConfig insts instanceName = Inr inst"
    and "fs (api_request (baseUrl inst) (security_path componentKey) (apiKey inst)) = Inr r1"
    and "status r1 = 200" and "json r1 = Inr security"
    and "fa (api_request (baseUrl inst) analysis_path (apiKey inst)) = Inr r2"
    and "status r2 \<noteq> 200"
  shows "getFindings fs fa insts componentKey instanceName =
         ([api_request (baseUrl inst) (security_path componentKey) (apiKey inst),
           api_request (baseUrl inst) analysis_path (apiKey inst)], Inr None)"
  using assms by (simp add: getFindings_def callApi_def)

lemma getFindings_no_data:
  assumes "getInstanceConfig insts instanceName = Inr inst"
    and "fs (api_request (baseUrl inst) (security_path componentKey) (apiKey inst)) = Inr r1"
    and "status r1 = 200" and "json r1 = Inr security"
    and "fa (api_request (baseUrl inst) analysis_path (apiKey inst)) = Inr r2"
    and "status r2 = 200" and "json r2 = Inr analysis" and "analysis_data analysis = None"
  shows "getFindings fs fa insts componentKey instanceName =
         ([api_request (baseUrl inst) (security_path componentKey) (apiKey inst),
           api_request (baseUrl inst) analysis_path (apiKey inst)], Inr None)"
  using assms by (simp add: getFindings_def callApi_def)

lemma getFindings_both_200:
  assumes "getInstanceConfig insts instanceName = Inr inst"
    and "fs (api_request (baseUrl inst) (security_path componentKey) (apiKey inst)) = Inr r1"
    and "status r1 = 200" and "json r1 = Inr security"
    and "fa (api_request (baseUrl inst) analysis_path (apiKey inst)) = Inr r2"
    and "status r2 = 200" and "json r2 = Inr analysis" and "analysis_data analysis = Some data"
  shows "getFindings fs fa insts componentKey instanceName =
         ([api_request (baseUrl inst) (security_path componentKey) (apiKey inst),
           api_request (baseUrl inst) analysis_path (apiKey inst)],
          (case metrics_general security data of Inl e \<Rightarrow> Inl e | Inr m \<Rightarrow> Inr (Some m)))"
  using assms by (simp add: getFindings_def callApi_def split: sum.splits)

lemma resolve_example_default:
  "getInstanceConfig [example_instance] None = Inr example_instance"
  by (simp add: getInstanceConfig_def example_instance_def DEFAULT_CODACY_NAME_def)

lemma metrics_general_empty:
  "security_data security = Some d \<Longrightarrow>
   metrics_general security [] =
     Inr \<lparr>m_grade = NaN, m_grade_letter = ''F'', m_code_coverage = NaN,
          m_issuesPercentage = NaN, m_complexFilesPercentage = NaN,
          m_duplicationPercentage = NaN, m_totalOpen = totalOpen d,
          m_totalClosed = totalClosed d, m_onTrack = onTrack d,
          m_closedOnTime = closedOnTime d\<rparr>"
  by (simp add: metrics_general_def initial_totals_def calculate_grade_def)

lemma metrics_general_no_security_data:
  "security_data security = None \<Longrightarrow>
   metrics_general security data = Inl (TypeError ''totalOpen'')"
  by (simp add: metrics_general_def Let_def)

text \<open>The loop keeps five independent running sums, each following the rule.\<close>

lemma add_field_contribution: "add_field acc v = js_add acc (contribution v)"
  by (simp add: add_field_def contribution_def split: option.splits)

lemma foldl_loop_body:
  "foldl loop_body t data =
     \<lparr>grade_total =
        foldl (\<lambda>acc r. js_add acc (contribution (grade r))) (grade_total t) data,
      code_coverage =
        foldl (\<lambda>acc r. js_add acc (contribution (coveragePercentageWithDecimals r)))
          (code_coverage t) data,
      issuesPercentage_total =
        foldl (\<lambda>acc r. js_add acc (contribution (issuesPercentage r)))
          (issuesPercentage_total t) data,
      complexFilesPercentage_total =
        foldl (\<lambda>acc r. js_add acc (contribution (complexFilesPercentage r)))
          (complexFilesPercentage_total t) data,
      duplicationPercentage_total =
        foldl (\<lambda>acc r. js_add acc (contribution (duplicationPercentage r)))
          (duplicationPercentage_total t) data\<rparr>"
  by (induction data arbitrary: t) (simp_all add: loop_body_def add_field_contribution)

lemma metrics_general_rule:
  "security_data security = Some d \<Longrightarrow>
   metrics_general security data =
     Inr \<lparr>m_grade = field_average grade data,
          m_grade_letter = calculate_grade (field_average grade data),
          m_code_coverage = field_average coveragePercentageWithDecimals data,
          m_issuesPercentage = field_average issuesPercentage data,
          m_complexFilesPercentage = field_average complexFilesPercentage data,
          m_duplicationPercentage = field_average duplicationPercentage data,
          m_totalOpen = totalOpen d, m_totalClosed = totalClosed d,
          m_onTrack = onTrack d, m_closedOnTime = closedOnTime d\<rparr>"
  by (simp add: metrics_general_def foldl_loop_body initial_totals_def field_average_def
      field_sum_def Let_def)

lemma averages_two_records:
  "field_average grade [full_record, absent_record] = Fin 100"
  "field_average coveragePercentageWithDecimals [full_record, absent_record] = Fin 100"
  "field_average issuesPercentage [full_record, absent_record] = Fin 100"
  "field_average complexFilesPercentage [full_record, absent_record] = Fin 100"
  "field_average duplicationPercentage [full_record, absent_record] = Fin 100"
  by code_simp+

lemma averages_mixed_records:
  "field_average grade [mixed_record, absent_record] = Fin 90"
  "field_average coveragePercentageWithDecimals [mixed_record, absent_record] = Fin 80"
  "field_average issuesPercentage [mixed_record, absent_record] = Fin 60"
  "field_average complexFilesPercentage [mixed_record, absent_record] = Fin 55"
  "field_average duplicationPercentage [mixed_record, absent_record] = Fin 100"
  by code_simp+

lemma grade_letters: "calculate_grade (Fin 100) = ''A''" "calculate_grade (Fin 90) = ''A''"
  by (simp_all add: calculate_grade_def)

lemma metrics_general_two_records:
  "security_data security = Some d \<Longrightarrow>
   metrics_general security [full_record, absent_record] =
     Inr \<lparr>m_grade = Fin 100, m_grade_letter = ''A'', m_code_coverage = Fin 100,
          m_issuesPercentage = Fin 100, m_complexFilesPercentage = Fin 100,
          m_duplicationPercentage = Fin 100, m_totalOpen = totalOpen d,
          m_totalClosed = totalClosed d, m_onTrack = onTrack d,
          m_closedOnTime = closedOnTime d\<rparr>"
  by (simp add: metrics_general_rule averages_two_records grade_letters)

lemma getFindings_requests:
  assumes "getInstanceConfig insts instanceName = Inr inst"
  shows "fst (getFindings fs fa insts componentKey instanceName) =
           [api_request (baseUrl inst) (security_path componentKey) (apiKey inst)] \<or>
         fst (getFindings fs fa insts componentKey instanceName) =
           [api_request (baseUrl inst) (security_path componentKey) (apiKey inst),
            api_request (baseUrl inst) analysis_path (apiKey inst)]"
  using assms
  by (auto simp: getFindings_def callApi_def Let_def
      split: sum.splits option.splits prod.splits if_splits)

lemma getFindings_Some_D:
  assumes "getInstanceConfig insts instanceName = Inr inst"
    and "snd (getFindings fs fa insts componentKey instanceName) = Inr (Some m)"
  shows "\<exists>security r2 analysis data.
           fa (api_request (baseUrl inst) analysis_path (apiKey inst)) = Inr r2 \<and>
           status r2 = 200 \<and> json r2 = Inr analysis \<and> analysis_data analysis = Some data \<and>
           metrics_general security data = Inr m"
  using assms
  by (auto simp: getFindings_def callApi_def Let_def
      split: sum.splits option.splits prod.splits if_splits)

lemma metrics_general_averaged:
  "metrics_general s1 data = Inr m1 \<Longrightarrow> metrics_general s2 data = Inr m2 \<Longrightarrow>
   averaged m1 = averaged m2"
  by (auto simp: metrics_general_def averaged_def Let_def split: option.splits)

section \<open>Claims about the instance registry\<close>

text \<open>
  C5 (as the code has it). When only the top-level fields are set (\<^verbatim>\<open>baseUrl\<close> and
  \<^verbatim>\<open>apiKey\<close> non-empty strings, \<^verbatim>\<open>externalBaseUrl\<close> missing or a non-empty string, the
  named list missing or empty), \<^verbatim>\<open>fromConfig\<close> succeeds, and \<^verbatim>\<open>getInstanceConfig\<close> with
  no name, with the empty name and with the name \<^verbatim>\<open>"default"\<close> returns the record named
  \<^verbatim>\<open>"default"\<close> that carries exactly the top-level \<^verbatim>\<open>baseUrl\<close>, \<^verbatim>\<open>externalBaseUrl\<close> and
  \<^verbatim>\<open>apiKey\<close>.
\<close>

theorem fromConfig_top_level_round_trip:
  assumes "codacy config = Some cc"
    and "instances cc = None \<or> instances cc = Some []"
    and "top_baseUrl cc = Some b" and "b \<noteq> []"
    and "top_apiKey cc = Some k" and "k \<noteq> []"
    and "top_externalBaseUrl cc \<noteq> Some []"
  shows "\<exists>insts. fromConfig config = Inr insts \<and>
           getInstanceConfig insts None =
             Inr \<lparr>name = ''default'', baseUrl = b,
                  externalBaseUrl = top_externalBaseUrl cc, apiKey = k\<rparr> \<and>
           getInstanceConfig insts (Some []) =
             Inr \<lparr>name = ''default'', baseUrl = b,
                  externalBaseUrl = top_externalBaseUrl cc, apiKey = k\<rparr> \<and>
           getInstanceConfig insts (Some ''default'') =
             Inr \<lparr>name = ''default'', baseUrl = b,
                  externalBaseUrl = top_externalBaseUrl cc, apiKey = k\<rparr>"
proof -
  have n: "namedInstanceConfig cc = Inr []"
    using assms(2) by (auto simp: namedInstanceConfig_def)
  have "fromConfig config =
        Inr [\<lparr>name = ''default'', baseUrl = b,
              externalBaseUrl = top_externalBaseUrl cc, apiKey = k\<rparr>]"
    using fromConfig_read [OF assms(1) n] assms(3-7) by simp
  then show ?thesis
    by (simp add: getInstanceConfig_def DEFAULT_CODACY_NAME_def)
qed

text \<open>
  The round trip on the configuration of the repository's tests, with an external URL.
\<close>

theorem fromConfig_top_level_round_trip_witness:
  "\<exists>insts. fromConfig top_level_only = Inr insts \<and>
     getInstanceConfig insts None =
       Inr \<lparr>name = ''default'', baseUrl = ''https://codacy.example.com'',
            externalBaseUrl = Some ''https://codacy-public.example.com'',
            apiKey = ''123456789abcdef0123456789abcedf012''\<rparr> \<and>
     getInstanceConfig insts (Some []) =
       Inr \<lparr>name = ''default'', baseUrl = ''https://codacy.example.com'',
            externalBaseUrl = Some ''https://codacy-public.example.com'',
            apiKey = ''123456789abcdef0123456789abcedf012''\<rparr> \<and>
     getInstanceConfig insts (Some ''default'') =
       Inr \<lparr>name = ''default'', baseUrl = ''https://codacy.example.com'',
            externalBaseUrl = Some ''https://codacy-public.example.com'',
            apiKey = ''123456789abcdef0123456789abcedf012''\<rparr>"
  using fromConfig_top_level_round_trip
    [where config = top_level_only
       and cc = "\<lparr>top_baseUrl = Some ''https://codacy.example.com'',
                  top_externalBaseUrl = Some ''https://codacy-public.example.com'',
                  top_apiKey = Some ''123456789abcdef0123456789abcedf012'',
                  instances = None\<rparr>"
       and b = "''https://codacy.example.com''"
       and k = "''123456789abcdef0123456789abcedf012''"]
  by (simp add: top_level_only_def)

text \<open>
  C5 as the specification states it fails: with \<^verbatim>\<open>baseUrl\<close> and \<^verbatim>\<open>apiKey\<close> set, no named
  instances and an empty \<^verbatim>\<open>externalBaseUrl\<close>, the accessor throws its TypeError and no
  registry is built.
\<close>

theorem fromConfig_empty_external_throws:
  "fromConfig top_level_empty_external = Inl (ConfigTypeError ''externalBaseUrl'') \<and>
   (\<nexists>insts. fromConfig top_level_empty_external = Inr insts)"
  by (simp add: fromConfig_def namedInstanceConfig_def getOptionalString_def
      top_level_empty_external_def)

text \<open>
  C6 (as the code has it). \<^verbatim>\<open>fromConfig\<close> adds no duplicate: when construction
  succeeds and the named list has no two entries with the same name, the resulting
  array has no two records with the same name. The names of the named list are not
  checked against each other.
\<close>

theorem fromConfig_adds_no_duplicate:
  assumes "fromConfig config = Inr insts"
    and "codacy config = Some cc"
    and "\<forall>cs. instances cc = Some cs \<longrightarrow> distinct (map name cs)"
  shows "distinct (map name insts)"
proof -
  obtain named where r: "namedInstanceConfig cc = Inr named" "top_baseUrl cc \<noteq> Some []"
      "top_externalBaseUrl cc \<noteq> Some []" "top_apiKey cc \<noteq> Some []"
    using fromConfig_Inr_D [OF assms(1,2)] by blast
  have d: "distinct (map name named)"
    using assms(3) namedInstanceConfig_D [OF r(1)] by (simp split: option.splits)
  show ?thesis
    using assms(1) d unfolding fromConfig_read [OF assms(2) r]
    by (auto split: if_splits)
qed

text \<open>
  A named instance \<^verbatim>\<open>"other"\<close> next to the top-level fields: the registry is that
  instance followed by the synthetic \<^verbatim>\<open>"default"\<close>, and the two names differ.
\<close>

theorem fromConfig_adds_no_duplicate_witness:
  "fromConfig named_and_top_level =
     Inr [other_instance,
          \<lparr>name = ''default'', baseUrl = ''https://codacy.example.com'',
            externalBaseUrl = None, apiKey = ''123456789abcdef0123456789abcedf012''\<rparr>] \<and>
   distinct (map name
     [other_instance,
      \<lparr>name = ''default'', baseUrl = ''https://codacy.example.com'',
        externalBaseUrl = None, apiKey = ''123456789abcdef0123456789abcedf012''\<rparr>])"
proof -
  have r: "fromConfig named_and_top_level =
     Inr [other_instance,
          \<lparr>name = ''default'', baseUrl = ''https://codacy.example.com'',
            externalBaseUrl = None, apiKey = ''123456789abcdef0123456789abcedf012''\<rparr>]"
    by (simp add: fromConfig_def namedInstanceConfig_def read_instance_def getString_def
        getOptionalString_def named_and_top_level_def other_instance_def
        DEFAULT_CODACY_NAME_def)
  show ?thesis
    using r fromConfig_adds_no_duplicate
      [OF r, where cc = "\<lparr>top_baseUrl = Some ''https://codacy.example.com'',
                  top_externalBaseUrl = None,
                  top_apiKey = Some ''123456789abcdef0123456789abcedf012'',
                  instances = Some [other_instance]\<rparr>"]
    by (simp add: named_and_top_level_def other_instance_def)
qed

text \<open>
  C6 as the specification states it fails: two named instances both called
  \<^verbatim>\<open>"other"\<close> pass construction, and the registry holds both.
\<close>

theorem fromConfig_duplicate_names:
  "\<exists>insts. fromConfig duplicate_names = Inr insts \<and> \<not> distinct (map name insts)"
  by (simp add: fromConfig_def namedInstanceConfig_def read_instance_def getString_def
      getOptionalString_def duplicate_names_def other_instance_def DEFAULT_CODACY_NAME_def)

text \<open>
  C7 (as the code has it). Let the accessors return: the named instances are read
  without error and no top-level field is an empty string, so that a field is present
  exactly when it is a non-empty string. A named instance \<^verbatim>\<open>"default"\<close> together with
  any of the three top-level fields fails with the conflict error. Exactly one of
  \<^verbatim>\<open>baseUrl\<close> and \<^verbatim>\<open>apiKey\<close> fails with the partial-configuration error when no named
  instance is called \<^verbatim>\<open>"default"\<close> (with one, the conflict check comes first). With
  neither \<^verbatim>\<open>baseUrl\<close> nor \<^verbatim>\<open>apiKey\<close>, the partial-configuration error is never raised,
  whatever \<^verbatim>\<open>externalBaseUrl\<close> is.
\<close>

theorem fromConfig_failures:
  assumes "codacy config = Some cc"
    and "namedInstanceConfig cc = Inr named"
    and "top_baseUrl cc \<noteq> Some []" and "top_externalBaseUrl cc \<noteq> Some []"
    and "top_apiKey cc \<noteq> Some []"
  shows "(''default'' \<in> set (map name named) \<and>
          (top_baseUrl cc \<noteq> None \<or> top_externalBaseUrl cc \<noteq> None \<or> top_apiKey cc \<noteq> None) \<longrightarrow>
          fromConfig config = Inl (Error conflict_message)) \<and>
         (''default'' \<notin> set (map name named) \<and>
          (top_baseUrl cc = None) \<noteq> (top_apiKey cc = None) \<longrightarrow>
          fromConfig config = Inl (Error partial_message)) \<and>
         (top_baseUrl cc = None \<and> top_apiKey cc = None \<longrightarrow>
          fromConfig config \<noteq> Inl (Error partial_message))"
  unfolding fromConfig_read [OF assms]
  using messages_differ by auto

text \<open>
  The three parts on concrete configurations: a named default with a top-level
  \<^verbatim>\<open>externalBaseUrl\<close>, a top-level \<^verbatim>\<open>baseUrl\<close> alone (the configuration of the
  repository's test), and a top-level \<^verbatim>\<open>externalBaseUrl\<close> alone.
\<close>

theorem fromConfig_failures_witness:
  "fromConfig external_with_named_default = Inl (Error conflict_message) \<and>
   fromConfig base_url_only = Inl (Error partial_message) \<and>
   fromConfig external_only \<noteq> Inl (Error partial_message)"
proof -
  have 1: "namedInstanceConfig
      \<lparr>top_baseUrl = None, top_externalBaseUrl = Some ''https://codacy-public.example.com'',
       top_apiKey = None, instances = Some [example_instance]\<rparr> = Inr [example_instance]"
    by (simp add: namedInstanceConfig_def read_instance_def getString_def
        getOptionalString_def example_instance_def)
  have 2: "namedInstanceConfig
      \<lparr>top_baseUrl = Some ''https://codacy.example.com'', top_externalBaseUrl = None,
       top_apiKey = None, instances = None\<rparr> = Inr []"
    by (simp add: namedInstanceConfig_def)
  have 3: "namedInstanceConfig
      \<lparr>top_baseUrl = None, top_externalBaseUrl = Some ''https://codacy-public.example.com'',
       top_apiKey = None, instances = Some [other_instance]\<rparr> = Inr [other_instance]"
    by (simp add: namedInstanceConfig_def read_instance_def getString_def
        getOptionalString_def other_instance_def)
  show ?thesis
    using fromConfig_failures [where config = external_with_named_default, OF _ 1]
      fromConfig_failures [where config = base_url_only, OF _ 2]
      fromConfig_failures [where config = external_only, OF _ 3]
    by (simp add: external_with_named_default_def base_url_only_def external_only_def
        example_instance_def other_instance_def)
qed

text \<open>
  C7 as the specification states it fails twice. A top-level \<^verbatim>\<open>baseUrl\<close> without
  \<^verbatim>\<open>apiKey\<close>, next to a named instance \<^verbatim>\<open>"default"\<close>, fails with the conflict error
  and not with the partial-configuration error. A top-level \<^verbatim>\<open>externalBaseUrl\<close> that is
  the empty string, next to a named instance \<^verbatim>\<open>"default"\<close>, fails with the accessor's
  TypeError and not with the conflict error.
\<close>

theorem fromConfig_partial_with_named_default:
  "fromConfig partial_with_named_default = Inl (Error conflict_message) \<and>
   fromConfig partial_with_named_default \<noteq> Inl (Error partial_message) \<and>
   fromConfig empty_external_with_named_default = Inl (ConfigTypeError ''externalBaseUrl'') \<and>
   fromConfig empty_external_with_named_default \<noteq> Inl (Error conflict_message)"
  using messages_differ
  by (simp add: fromConfig_def namedInstanceConfig_def read_instance_def getString_def
      getOptionalString_def partial_with_named_default_def
      empty_external_with_named_default_def example_instance_def DEFAULT_CODACY_NAME_def)

text \<open>
  C8 (as the code has it). When no record is named \<^verbatim>\<open>"default"\<close>,
  \<^verbatim>\<open>getInstanceConfig\<close> with no name, with the empty name and with the name
  \<^verbatim>\<open>"default"\<close> fails with one and the same error, whose message does not mention
  the name that was passed.
\<close>

theorem getInstanceConfig_no_default:
  assumes "''default'' \<notin> set (map name insts)"
  shows "getInstanceConfig insts None = Inl (Error no_default_message) \<and>
         getInstanceConfig insts (Some []) = Inl (Error no_default_message) \<and>
         getInstanceConfig insts (Some ''default'') = Inl (Error no_default_message)"
proof -
  have "find (\<lambda>c. name c = DEFAULT_CODACY_NAME) insts = None"
    using assms by (simp add: find_name_None DEFAULT_CODACY_NAME_def)
  then show ?thesis
    by (simp add: getInstanceConfig_def DEFAULT_CODACY_NAME_def)
qed

text \<open>
  The registry of the repository's test, with the one instance \<^verbatim>\<open>"other"\<close>.
\<close>

theorem getInstanceConfig_no_default_witness:
  "getInstanceConfig [other_instance] None = Inl (Error no_default_message) \<and>
   getInstanceConfig [other_instance] (Some []) = Inl (Error no_default_message) \<and>
   getInstanceConfig [other_instance] (Some ''default'') = Inl (Error no_default_message)"
  using getInstanceConfig_no_default [of "[other_instance]"]
  by (simp add: other_instance_def)

text \<open>
  C8 as the specification states it fails: on that registry the error for the
  explicit name \<^verbatim>\<open>"default"\<close> and the error for the omitted name carry the same
  message.
\<close>

theorem getInstanceConfig_same_message:
  "\<exists>msg. getInstanceConfig [other_instance] (Some ''default'') = Inl (Error msg) \<and>
         getInstanceConfig [other_instance] None = Inl (Error msg)"
  by (simp add: getInstanceConfig_def other_instance_def DEFAULT_CODACY_NAME_def)

section \<open>Claims about the findings aggregator\<close>

text \<open>
  C1 (as the code has it). When both calls answer 200 and the security body has its
  \<^verbatim>\<open>data\<close>, \<^verbatim>\<open>getFindings\<close> returns, for every analysis array, the summary whose five
  averages follow the rule field by field: each record adds the field's value when it
  is truthy and the fallback 100 when it is absent or falsy, and the sum is divided by
  the array's length; the letter is that of the grade average. For the array of the
  record \<^verbatim>\<open>{grade:100, coveragePercentageWithDecimals:100, issuesPercentage:0,
  complexFilesPercentage:0, duplicationPercentage:0}\<close> followed by a record with none of
  the five fields, the grade average is 100 with letter A, and the issuesPercentage
  average is 100, not 50: the value 0 of the first record is falsy.
\<close>

theorem getFindings_averages:
  assumes "getInstanceConfig insts instanceName = Inr inst"
    and "fs (api_request (baseUrl inst) (security_path componentKey) (apiKey inst)) = Inr r1"
    and "status r1 = 200" and "json r1 = Inr security" and "security_data security = Some d"
    and "fa (api_request (baseUrl inst) analysis_path (apiKey inst)) = Inr r2"
    and "status r2 = 200" and "json r2 = Inr analysis"
    and "analysis_data analysis = Some data"
  shows "snd (getFindings fs fa insts componentKey instanceName) =
           Inr (Some \<lparr>m_grade = field_average grade data,
                      m_grade_letter = calculate_grade (field_average grade data),
                      m_code_coverage = field_average coveragePercentageWithDecimals data,
                      m_issuesPercentage = field_average issuesPercentage data,
                      m_complexFilesPercentage = field_average complexFilesPercentage data,
                      m_duplicationPercentage = field_average duplicationPercentage data,
                      m_totalOpen = totalOpen d, m_totalClosed = totalClosed d,
                      m_onTrack = onTrack d, m_closedOnTime = closedOnTime d\<rparr>) \<and>
         field_average grade [full_record, absent_record] = Fin 100 \<and>
         calculate_grade (field_average grade [full_record, absent_record]) = ''A'' \<and>
         field_average issuesPercentage [full_record, absent_record] = Fin 100"
  using getFindings_both_200 [where fs = fs and fa = fa, OF assms(1-4) assms(6-9)]
    metrics_general_rule [OF assms(5)]
  by (simp add: averages_two_records grade_letters)

text \<open>
  Two arrays. In the first the present values differ from the fallback, so that the
  averages show which branch was taken: grade (80 + 100) / 2, coverage (60 + 100) / 2,
  issues (20 + 100) / 2, complex files (10 + 100) / 2, and duplication (100 + 100) / 2
  for the falsy 0. The second is the array of the specification.
\<close>

theorem getFindings_averages_witness:
  "snd (getFindings (answers 200 example_security)
          (answers 200 \<lparr>analysis_data = Some [mixed_record, absent_record]\<rparr>)
          [example_instance] ''MonkeyECX'' None) =
     Inr (Some \<lparr>m_grade = Fin 90, m_grade_letter = ''A'', m_code_coverage = Fin 80,
                m_issuesPercentage = Fin 60, m_complexFilesPercentage = Fin 55,
                m_duplicationPercentage = Fin 100, m_totalOpen = Some (Fin 3),
                m_totalClosed = Some (Fin 5), m_onTrack = Some (Fin 2),
                m_closedOnTime = Some (Fin 4)\<rparr>) \<and>
   snd (getFindings (answers 200 example_security)
          (answers 200 \<lparr>analysis_data = Some [full_record, absent_record]\<rparr>)
          [example_instance] ''MonkeyECX'' None) =
     Inr (Some \<lparr>m_grade = Fin 100, m_grade_letter = ''A'', m_code_coverage = Fin 100,
                m_issuesPercentage = Fin 100, m_complexFilesPercentage = Fin 100,
                m_duplicationPercentage = Fin 100, m_totalOpen = Some (Fin 3),
                m_totalClosed = Some (Fin 5), m_onTrack = Some (Fin 2),
                m_closedOnTime = Some (Fin 4)\<rparr>)"
proof -
  let ?a = "\<lparr>analysis_data = Some [mixed_record, absent_record]\<rparr>"
  let ?b = "\<lparr>analysis_data = Some [full_record, absent_record]\<rparr>"
  let ?d = "\<lparr>totalOpen = Some (Fin 3), totalClosed = Some (Fin 5),
             onTrack = Some (Fin 2), closedOnTime = Some (Fin 4)\<rparr>"
  show ?thesis
    using getFindings_averages
        [where fs = "answers 200 example_security" and fa = "answers 200 ?a"
           and insts = "[example_instance]" and instanceName = None
           and inst = example_instance and componentKey = "''MonkeyECX''"
           and ?r1.0 = "\<lparr>status = 200, json = Inr example_security\<rparr>"
           and security = example_security and d = ?d
           and ?r2.0 = "\<lparr>status = 200, json = Inr ?a\<rparr>" and analysis = ?a
           and data = "[mixed_record, absent_record]"]
      getFindings_averages
        [where fs = "answers 200 example_security" and fa = "answers 200 ?b"
           and insts = "[example_instance]" and instanceName = None
           and inst = example_instance and componentKey = "''MonkeyECX''"
           and ?r1.0 = "\<lparr>status = 200, json = Inr example_security\<rparr>"
           and security = example_security and d = ?d
           and ?r2.0 = "\<lparr>status = 200, json = Inr ?b\<rparr>" and analysis = ?b
           and data = "[full_record, absent_record]"]
    by (simp add: answers_def example_security_def resolve_example_default
        averages_mixed_records averages_two_records grade_letters)
qed

text \<open>
  C1 as the specification states it fails on that input: the summary is returned,
  its grade average is 100 with letter A, and its issuesPercentage average is 100,
  which is not 50.
\<close>

theorem getFindings_two_records_issues_not_50:
  "\<exists>m. snd (getFindings (answers 200 example_security)
               (answers 200 \<lparr>analysis_data = Some [full_record, absent_record]\<rparr>)
               [example_instance] ''MonkeyECX'' None) = Inr (Some m) \<and>
       m_grade m = Fin 100 \<and> m_grade_letter m = ''A'' \<and>
       m_issuesPercentage m = Fin 100 \<and> m_issuesPercentage m \<noteq> Fin 50"
proof -
  have "getFindings (answers 200 example_security)
          (answers 200 \<lparr>analysis_data = Some [full_record, absent_record]\<rparr>)
          [example_instance] ''MonkeyECX'' None =
        ([api_request (baseUrl example_instance) (security_path ''MonkeyECX'')
            (apiKey example_instance),
          api_request (baseUrl example_instance) analysis_path (apiKey example_instance)],
         (case metrics_general example_security [full_record, absent_record] of
            Inl e \<Rightarrow> Inl e | Inr m \<Rightarrow> Inr (Some m)))"
    using getFindings_both_200
      [where fs = "answers 200 example_security"
         and fa = "answers 200 \<lparr>analysis_data = Some [full_record, absent_record]\<rparr>"
         and insts = "[example_instance]" and instanceName = None
         and inst = example_instance and componentKey = "''MonkeyECX''"
         and ?r1.0 = "\<lparr>status = 200, json = Inr example_security\<rparr>"
         and security = example_security
         and ?r2.0 = "\<lparr>status = 200,
                        json = Inr \<lparr>analysis_data = Some [full_record, absent_record]\<rparr>\<rparr>"
         and analysis = "\<lparr>analysis_data = Some [full_record, absent_record]\<rparr>"
         and data = "[full_record, absent_record]"]
    by (simp add: answers_def resolve_example_default)
  moreover have "security_data example_security =
      Some \<lparr>totalOpen = Some (Fin 3), totalClosed = Some (Fin 5),
            onTrack = Some (Fin 2), closedOnTime = Some (Fin 4)\<rparr>"
    by (simp add: example_security_def)
  ultimately show ?thesis
    by (simp add: metrics_general_two_records)
qed

text \<open>
  C2. For every finite grade \<open>q\<close>, \<^verbatim>\<open>calculate_grade\<close> returns A when \<open>q \<ge> 90\<close>, B when
  \<open>80 \<le> q < 90\<close>, C when \<open>70 \<le> q < 80\<close>, D when \<open>60 \<le> q < 70\<close> and F below 60; of the
  other numbers, \<open>Infinity\<close> is an A, and \<open>-Infinity\<close> and \<open>NaN\<close> fall to the default F.
\<close>

theorem calculate_grade_thresholds:
  "(90 \<le> q \<longrightarrow> calculate_grade (Fin q) = ''A'') \<and>
   (80 \<le> q \<and> q < 90 \<longrightarrow> calculate_grade (Fin q) = ''B'') \<and>
   (70 \<le> q \<and> q < 80 \<longrightarrow> calculate_grade (Fin q) = ''C'') \<and>
   (60 \<le> q \<and> q < 70 \<longrightarrow> calculate_grade (Fin q) = ''D'') \<and>
   (q < 60 \<longrightarrow> calculate_grade (Fin q) = ''F'') \<and>
   calculate_grade PosInfinity = ''A'' \<and>
   calculate_grade NegInfinity = ''F'' \<and>
   calculate_grade NaN = ''F''"
  by (simp add: calculate_grade_def)

text \<open>The boundary values of the specification: 90, 89.999, 80, 69.999 and 59.999.\<close>

theorem calculate_grade_thresholds_witness:
  "calculate_grade (Fin 90) = ''A'' \<and>
   calculate_grade (Fin (89999 / 1000)) = ''B'' \<and>
   calculate_grade (Fin 80) = ''B'' \<and>
   calculate_grade (Fin (69999 / 1000)) = ''D'' \<and>
   calculate_grade (Fin (59999 / 1000)) = ''F''"
  using calculate_grade_thresholds [of 90] calculate_grade_thresholds [of "89999 / 1000"]
    calculate_grade_thresholds [of 80] calculate_grade_thresholds [of "69999 / 1000"]
    calculate_grade_thresholds [of "59999 / 1000"]
  by simp

text \<open>
  C3. Once the instance is resolved: when the security call answers with a status
  other than 200, \<^verbatim>\<open>getFindings\<close> returns \<^verbatim>\<open>undefined\<close> after that one request; when
  the security call answers 200 with a body and the analysis call answers with a
  status other than 200, or answers 200 with a body that has no \<^verbatim>\<open>data\<close>,
  \<^verbatim>\<open>getFindings\<close> returns \<^verbatim>\<open>undefined\<close> after these two requests.
\<close>

theorem getFindings_absent:
  assumes "getInstanceConfig insts instanceName = Inr inst"
  shows "(\<forall>r1. fs (api_request (baseUrl inst) (security_path componentKey) (apiKey inst)) = Inr r1 \<and>
               status r1 \<noteq> 200 \<longrightarrow>
             getFindings fs fa insts componentKey instanceName =
               ([api_request (baseUrl inst) (security_path componentKey) (apiKey inst)],
                Inr None)) \<and>
         (\<forall>r1 security r2.
             fs (api_request (baseUrl inst) (security_path componentKey) (apiKey inst)) = Inr r1 \<and>
             status r1 = 200 \<and> json r1 = Inr security \<and>
             fa (api_request (baseUrl inst) analysis_path (apiKey inst)) = Inr r2 \<and>
             (status r2 \<noteq> 200 \<or>
              (\<exists>analysis. json r2 = Inr analysis \<and> analysis_data analysis = None)) \<longrightarrow>
             getFindings fs fa insts componentKey instanceName =
               ([api_request (baseUrl inst) (security_path componentKey) (apiKey inst),
                 api_request (baseUrl inst) analysis_path (apiKey inst)],
                Inr None))"
proof (intro conjI allI impI)
  fix r1
  assume "fs (api_request (baseUrl inst) (security_path componentKey) (apiKey inst)) = Inr r1 \<and>
          status r1 \<noteq> 200"
  then show "getFindings fs fa insts componentKey instanceName =
             ([api_request (baseUrl inst) (security_path componentKey) (apiKey inst)], Inr None)"
    using getFindings_first_not_200 [where fs = fs, OF assms] by blast
next
  fix r1 security r2
  assume h: "fs (api_request (baseUrl inst) (security_path componentKey) (apiKey inst)) = Inr r1 \<and>
             status r1 = 200 \<and> json r1 = Inr security \<and>
             fa (api_request (baseUrl inst) analysis_path (apiKey inst)) = Inr r2 \<and>
             (status r2 \<noteq> 200 \<or>
              (\<exists>analysis. json r2 = Inr analysis \<and> analysis_data analysis = None))"
  show "getFindings fs fa insts componentKey instanceName =
        ([api_request (baseUrl inst) (security_path componentKey) (apiKey inst),
          api_request (baseUrl inst) analysis_path (apiKey inst)], Inr None)"
  proof (cases "status r2 = 200")
    case False
    with h show ?thesis
      using getFindings_second_not_200 [where fs = fs and fa = fa, OF assms] by blast
  next
    case True
    with h obtain analysis where "json r2 = Inr analysis" "analysis_data analysis = None"
      by blast
    with h True show ?thesis
      using getFindings_no_data [where fs = fs and fa = fa, OF assms] by blast
  qed
qed

text \<open>
  Three servers: status 500 on the first call, status 404 on the second, and a second
  body without \<^verbatim>\<open>data\<close>.
\<close>

theorem getFindings_absent_witness:
  "getFindings (answers 500 example_security) (answers 200 \<lparr>analysis_data = Some []\<rparr>)
     [example_instance] ''MonkeyECX'' None =
     ([api_request ''https://codacy.example.com'' ''organizations/gh/MonkeyECX/security/dashboard''
         ''123456789abcdef0123456789abcedf012''], Inr None) \<and>
   getFindings (answers 200 example_security) (answers 404 \<lparr>analysis_data = Some []\<rparr>)
     [example_instance] ''MonkeyECX'' None =
     ([api_request ''https://codacy.example.com'' ''organizations/gh/MonkeyECX/security/dashboard''
         ''123456789abcdef0123456789abcedf012'',
       api_request ''https://codacy.example.com''
         ''search/analysis/organizations/gh/MonkeyECX/repositories''
         ''123456789abcdef0123456789abcedf012''], Inr None) \<and>
   getFindings (answers 200 example_security) (answers 200 \<lparr>analysis_data = None\<rparr>)
     [example_instance] ''MonkeyECX'' None =
     ([api_request ''https://codacy.example.com'' ''organizations/gh/MonkeyECX/security/dashboard''
         ''123456789abcdef0123456789abcedf012'',
       api_request ''https://codacy.example.com''
         ''search/analysis/organizations/gh/MonkeyECX/repositories''
         ''123456789abcdef0123456789abcedf012''], Inr None)"
  using getFindings_absent [OF resolve_example_default,
          where fs = "answers 500 example_security"
            and fa = "answers 200 \<lparr>analysis_data = Some []\<rparr>" and componentKey = "''MonkeyECX''"]
        getFindings_absent [OF resolve_example_default,
          where fs = "answers 200 example_security"
            and fa = "answers 404 \<lparr>analysis_data = Some []\<rparr>" and componentKey = "''MonkeyECX''"]
        getFindings_absent [OF resolve_example_default,
          where fs = "answers 200 example_security"
            and fa = "answers 200 \<lparr>analysis_data = None\<rparr>" and componentKey = "''MonkeyECX''"]
  by (simp add: answers_def example_instance_def security_path_def analysis_path_def)

text \<open>
  C4 fails on the code. Both calls answer 200, the security body is \<^verbatim>\<open>{}\<close> and the
  analysis body is \<^verbatim>\<open>{"data": []}\<close>: the analysis body passes the guard
  \<^verbatim>\<open>!analysis.data\<close>, no guard tests \<^verbatim>\<open>security.data\<close>, and reading
  \<^verbatim>\<open>security.data.totalOpen\<close> throws a TypeError instead of returning \<^verbatim>\<open>undefined\<close>.
\<close>

theorem getFindings_throws_on_missing_security_data:
  "getFindings (answers 200 \<lparr>security_data = None\<rparr>) (answers 200 \<lparr>analysis_data = Some []\<rparr>)
     [example_instance] ''MonkeyECX'' None =
     ([api_request ''https://codacy.example.com'' ''organizations/gh/MonkeyECX/security/dashboard''
         ''123456789abcdef0123456789abcedf012'',
       api_request ''https://codacy.example.com''
         ''search/analysis/organizations/gh/MonkeyECX/repositories''
         ''123456789abcdef0123456789abcedf012''], Inl (TypeError ''totalOpen''))"
proof -
  have "getFindings (answers 200 \<lparr>security_data = None\<rparr>)
          (answers 200 \<lparr>analysis_data = Some []\<rparr>) [example_instance] ''MonkeyECX'' None =
        ([api_request (baseUrl example_instance) (security_path ''MonkeyECX'')
            (apiKey example_instance),
          api_request (baseUrl example_instance) analysis_path (apiKey example_instance)],
         (case metrics_general \<lparr>security_data = None\<rparr> [] of
            Inl e \<Rightarrow> Inl e | Inr m \<Rightarrow> Inr (Some m)))"
    using getFindings_both_200
      [where fs = "answers 200 \<lparr>security_data = None\<rparr>"
         and fa = "answers 200 \<lparr>analysis_data = Some []\<rparr>"
         and insts = "[example_instance]" and instanceName = None
         and inst = example_instance and componentKey = "''MonkeyECX''"
         and ?r1.0 = "\<lparr>status = 200, json = Inr \<lparr>security_data = None\<rparr>\<rparr>"
         and security = "\<lparr>security_data = None\<rparr>"
         and ?r2.0 = "\<lparr>status = 200, json = Inr \<lparr>analysis_data = Some []\<rparr>\<rparr>"
         and analysis = "\<lparr>analysis_data = Some []\<rparr>" and data = "[]"]
    by (simp add: answers_def resolve_example_default)
  then show ?thesis
    by (simp add: metrics_general_no_security_data example_instance_def security_path_def
        analysis_path_def)
qed

text \<open>
  C9 (as the code has it). When both calls answer 200, the security body has its
  \<^verbatim>\<open>data\<close> and the analysis array is empty, \<^verbatim>\<open>getFindings\<close> returns a summary: the five
  averages are \<open>0 / 0 = NaN\<close>, the letter is the default F, and the counters are those
  of the security body.
\<close>

theorem getFindings_empty_array:
  assumes "getInstanceConfig insts instanceName = Inr inst"
    and "fs (api_request (baseUrl inst) (security_path componentKey) (apiKey inst)) = Inr r1"
    and "status r1 = 200" and "json r1 = Inr security" and "security_data security = Some d"
    and "fa (api_request (baseUrl inst) analysis_path (apiKey inst)) = Inr r2"
    and "status r2 = 200" and "json r2 = Inr analysis"
    and "analysis_data analysis = Some []"
  shows "snd (getFindings fs fa insts componentKey instanceName) =
         Inr (Some \<lparr>m_grade = NaN, m_grade_letter = ''F'', m_code_coverage = NaN,
                    m_issuesPercentage = NaN, m_complexFilesPercentage = NaN,
                    m_duplicationPercentage = NaN, m_totalOpen = totalOpen d,
                    m_totalClosed = totalClosed d, m_onTrack = onTrack d,
                    m_closedOnTime = closedOnTime d\<rparr>)"
  using getFindings_both_200 [where fs = fs and fa = fa, OF assms(1-4) assms(6-9)]
    metrics_general_empty [OF assms(5)]
  by simp

text \<open>
  The empty analysis array next to the security body of the worked example.
\<close>

theorem getFindings_empty_array_witness:
  "snd (getFindings (answers 200 example_security) (answers 200 \<lparr>analysis_data = Some []\<rparr>)
          [example_instance] ''MonkeyECX'' None) =
   Inr (Some \<lparr>m_grade = NaN, m_grade_letter = ''F'', m_code_coverage = NaN,
              m_issuesPercentage = NaN, m_complexFilesPercentage = NaN,
              m_duplicationPercentage = NaN, m_totalOpen = Some (Fin 3),
              m_totalClosed = Some (Fin 5), m_onTrack = Some (Fin 2),
              m_closedOnTime = Some (Fin 4)\<rparr>)"
  using getFindings_empty_array
      [where fs = "answers 200 example_security"
         and fa = "answers 200 \<lparr>analysis_data = Some []\<rparr>"
         and insts = "[example_instance]" and instanceName = None
         and inst = example_instance and componentKey = "''MonkeyECX''"
         and ?r1.0 = "\<lparr>status = 200, json = Inr example_security\<rparr>"
         and security = example_security
         and d = "\<lparr>totalOpen = Some (Fin 3), totalClosed = Some (Fin 5),
                   onTrack = Some (Fin 2), closedOnTime = Some (Fin 4)\<rparr>"
         and ?r2.0 = "\<lparr>status = 200, json = Inr \<lparr>analysis_data = Some []\<rparr>\<rparr>"
         and analysis = "\<lparr>analysis_data = Some []\<rparr>"]
  by (simp add: answers_def example_security_def resolve_example_default)

text \<open>
  C9 as the specification states it fails: with an empty analysis array and a
  security body without \<^verbatim>\<open>data\<close>, \<^verbatim>\<open>getFindings\<close> throws and returns no summary.
\<close>

theorem getFindings_empty_array_needs_security_data:
  "snd (getFindings (answers 200 \<lparr>security_data = None\<rparr>)
          (answers 200 \<lparr>analysis_data = Some []\<rparr>)
          [other_instance] ''another-org'' (Some ''other'')) = Inl (TypeError ''totalOpen'') \<and>
   (\<nexists>m. snd (getFindings (answers 200 \<lparr>security_data = None\<rparr>)
               (answers 200 \<lparr>analysis_data = Some []\<rparr>)
               [other_instance] ''another-org'' (Some ''other'')) = Inr (Some m))"
proof -
  have r: "getInstanceConfig [other_instance] (Some ''other'') = Inr other_instance"
    by (simp add: getInstanceConfig_def other_instance_def DEFAULT_CODACY_NAME_def)
  have "getFindings (answers 200 \<lparr>security_data = None\<rparr>)
          (answers 200 \<lparr>analysis_data = Some []\<rparr>)
          [other_instance] ''another-org'' (Some ''other'') =
        ([api_request (baseUrl other_instance) (security_path ''another-org'')
            (apiKey other_instance),
          api_request (baseUrl other_instance) analysis_path (apiKey other_instance)],
         (case metrics_general \<lparr>security_data = None\<rparr> [] of
            Inl e \<Rightarrow> Inl e | Inr m \<Rightarrow> Inr (Some m)))"
    using getFindings_both_200
      [where fs = "answers 200 \<lparr>security_data = None\<rparr>"
         and fa = "answers 200 \<lparr>analysis_data = Some []\<rparr>"
         and insts = "[other_instance]" and instanceName = "Some ''other''"
         and inst = other_instance and componentKey = "''another-org''"
         and ?r1.0 = "\<lparr>status = 200, json = Inr \<lparr>security_data = None\<rparr>\<rparr>"
         and security = "\<lparr>security_data = None\<rparr>"
         and ?r2.0 = "\<lparr>status = 200, json = Inr \<lparr>analysis_data = Some []\<rparr>\<rparr>"
         and analysis = "\<lparr>analysis_data = Some []\<rparr>" and data = "[]"]
    by (simp add: answers_def r)
  then show ?thesis
    by (simp add: metrics_general_no_security_data)
qed

text \<open>
  C10. Once the instance is resolved, every request after the first is the request
  for the path \<^verbatim>\<open>search/analysis/organizations/gh/MonkeyECX/repositories\<close> under the
  instance's base URL, built without the component key. Two invocations on the same
  instance that both return findings and whose analysis calls get the same answer
  return the same averaged part, whatever their component keys and whatever their
  security answers.
\<close>

theorem analysis_call_ignores_componentKey:
  assumes "getInstanceConfig insts instanceName = Inr inst"
  shows "set (tl (fst (getFindings fs1 fa1 insts componentKey1 instanceName))) \<subseteq>
           {api_request (baseUrl inst) analysis_path (apiKey inst)} \<and>
         req_url (api_request (baseUrl inst) analysis_path (apiKey inst)) =
           baseUrl inst @ ''/search/analysis/organizations/gh/MonkeyECX/repositories '' \<and>
         (\<forall>m1 m2.
            fa1 (api_request (baseUrl inst) analysis_path (apiKey inst)) =
            fa2 (api_request (baseUrl inst) analysis_path (apiKey inst)) \<and>
            snd (getFindings fs1 fa1 insts componentKey1 instanceName) = Inr (Some m1) \<and>
            snd (getFindings fs2 fa2 insts componentKey2 instanceName) = Inr (Some m2) \<longrightarrow>
            averaged m1 = averaged m2)"
proof (intro conjI allI impI)
  show "set (tl (fst (getFindings fs1 fa1 insts componentKey1 instanceName))) \<subseteq>
        {api_request (baseUrl inst) analysis_path (apiKey inst)}"
    using getFindings_requests [OF assms, of fs1 fa1 componentKey1] by auto
next
  show "req_url (api_request (baseUrl inst) analysis_path (apiKey inst)) =
        baseUrl inst @ ''/search/analysis/organizations/gh/MonkeyECX/repositories ''"
    by (simp add: api_request_def analysis_path_def)
next
  fix m1 m2
  assume h: "fa1 (api_request (baseUrl inst) analysis_path (apiKey inst)) =
             fa2 (api_request (baseUrl inst) analysis_path (apiKey inst)) \<and>
             snd (getFindings fs1 fa1 insts componentKey1 instanceName) = Inr (Some m1) \<and>
             snd (getFindings fs2 fa2 insts componentKey2 instanceName) = Inr (Some m2)"
  from h obtain s1 r2 a1 d1 where 1:
    "fa1 (api_request (baseUrl inst) analysis_path (apiKey inst)) = Inr r2"
    "json r2 = Inr a1" "analysis_data a1 = Some d1" "metrics_general s1 d1 = Inr m1"
    using getFindings_Some_D [OF assms, of fs1 fa1 componentKey1 m1] by blast
  from h obtain s2 r2' a2 d2 where 2:
    "fa2 (api_request (baseUrl inst) analysis_path (apiKey inst)) = Inr r2'"
    "json r2' = Inr a2" "analysis_data a2 = Some d2" "metrics_general s2 d2 = Inr m2"
    using getFindings_Some_D [OF assms, of fs2 fa2 componentKey2 m2] by blast
  from h 1 2 have "d1 = d2" by simp
  with 1 2 show "averaged m1 = averaged m2"
    using metrics_general_averaged by blast
qed

text \<open>
  Two component keys and two security bodies with different counters, one analysis
  body: the counters differ, the averaged parts agree.
\<close>

theorem analysis_call_ignores_componentKey_witness:
  "\<exists>m1 m2.
     snd (getFindings (answers 200 example_security)
            (answers 200 \<lparr>analysis_data = Some [full_record, absent_record]\<rparr>)
            [example_instance] ''MonkeyECX'' None) = Inr (Some m1) \<and>
     snd (getFindings (answers 200 other_security)
            (answers 200 \<lparr>analysis_data = Some [full_record, absent_record]\<rparr>)
            [example_instance] ''another-org'' None) = Inr (Some m2) \<and>
     m_totalOpen m1 \<noteq> m_totalOpen m2 \<and> averaged m1 = averaged m2"
proof -
  let ?a = "\<lparr>analysis_data = Some [full_record, absent_record]\<rparr>"
  let ?r1 = "getFindings (answers 200 example_security) (answers 200 ?a)
               [example_instance] ''MonkeyECX'' None"
  let ?r2 = "getFindings (answers 200 other_security) (answers 200 ?a)
               [example_instance] ''another-org'' None"
  have s1: "security_data example_security =
      Some \<lparr>totalOpen = Some (Fin 3), totalClosed = Some (Fin 5),
            onTrack = Some (Fin 2), closedOnTime = Some (Fin 4)\<rparr>"
    by (simp add: example_security_def)
  have s2: "security_data other_security =
      Some \<lparr>totalOpen = Some (Fin 7), totalClosed = Some (Fin 0),
            onTrack = None, closedOnTime = Some (Fin 1)\<rparr>"
    by (simp add: other_security_def)
  have 1: "snd ?r1 = Inr (Some \<lparr>m_grade = Fin 100, m_grade_letter = ''A'',
             m_code_coverage = Fin 100, m_issuesPercentage = Fin 100,
             m_complexFilesPercentage = Fin 100, m_duplicationPercentage = Fin 100,
             m_totalOpen = Some (Fin 3), m_totalClosed = Some (Fin 5),
             m_onTrack = Some (Fin 2), m_closedOnTime = Some (Fin 4)\<rparr>)"
    using getFindings_both_200
      [where fs = "answers 200 example_security" and fa = "answers 200 ?a"
         and insts = "[example_instance]" and instanceName = None
         and inst = example_instance and componentKey = "''MonkeyECX''"
         and ?r1.0 = "\<lparr>status = 200, json = Inr example_security\<rparr>"
         and security = example_security
         and ?r2.0 = "\<lparr>status = 200, json = Inr ?a\<rparr>" and analysis = ?a
         and data = "[full_record, absent_record]"]
    by (simp add: answers_def resolve_example_default metrics_general_two_records [OF s1])
  have 2: "snd ?r2 = Inr (Some \<lparr>m_grade = Fin 100, m_grade_letter = ''A'',
             m_code_coverage = Fin 100, m_issuesPercentage = Fin 100,
             m_complexFilesPercentage = Fin 100, m_duplicationPercentage = Fin 100,
             m_totalOpen = Some (Fin 7), m_totalClosed = Some (Fin 0),
             m_onTrack = None, m_closedOnTime = Some (Fin 1)\<rparr>)"
    using getFindings_both_200
      [where fs = "answers 200 other_security" and fa = "answers 200 ?a"
         and insts = "[example_instance]" and instanceName = None
         and inst = example_instance and componentKey = "''another-org''"
         and ?r1.0 = "\<lparr>status = 200, json = Inr other_security\<rparr>"
         and security = other_security
         and ?r2.0 = "\<lparr>status = 200, json = Inr ?a\<rparr>" and analysis = ?a
         and data = "[full_record, absent_record]"]
    by (simp add: answers_def resolve_example_default metrics_general_two_records [OF s2])
  from 1 2 show ?thesis
    using analysis_call_ignores_componentKey
      [OF resolve_example_default,
       where ?fs1.0 = "answers 200 example_security" and ?fa1.0 = "answers 200 ?a"
         and ?fs2.0 = "answers 200 other_security" and ?fa2.0 = "answers 200 ?a"
         and ?componentKey1.0 = "''MonkeyECX''" and ?componentKey2.0 = "''another-org''"]
    by auto
qed

end
